theory Spec2Isabelle
  imports Complex_Main
begin

section \<open>The jobs table\<close>

text \<open>
  The schema of \<^verbatim>\<open>db.py\<close> (\<^verbatim>\<open>init_db\<close>): one table \<^verbatim>\<open>jobs\<close>. The \<^verbatim>\<open>state\<close> column is
  TEXT with a CHECK constraint that admits exactly five values; they are the constructors
  of \<open>job_state\<close>. The three timestamp columns are TEXT, compared by SQLite as plain
  values; the model leaves the timestamp type \<open>'t\<close> open and asks only for a linear order
  where the SQL compares. A nullable column is an \<open>option\<close>.

  An INTEGER column holds a signed 64-bit integer. \<^verbatim>\<open>attempts\<close> is the one column on which
  the program computes in SQL (\<^verbatim>\<open>attempts + 1\<close>): when the sum leaves the 64-bit range,
  SQLite continues in REAL, so the column can also hold the REAL \<open>2^63\<close>. A value of the
  column is represented by the number it denotes.

  A table is the list of its rows in insertion order. \<^verbatim>\<open>id\<close> is the PRIMARY KEY, so the
  tables the program can build have pairwise distinct ids (\<open>distinct_ids\<close>).
\<close>

datatype job_state = Pending | Processing | Completed | Failed | Dead

record 't job =
  job_id :: string
  command :: string
  state :: job_state
  attempts :: int
  max_retries :: int
  created_at :: 't
  updated_at :: 't
  priority :: int
  run_at :: "'t option"
  stdout :: "string option"
  stderr :: "string option"

definition distinct_ids :: "'t job list \<Rightarrow> bool" where
  "distinct_ids jobs = distinct (map job_id jobs)"

definition in_int64 :: "int \<Rightarrow> bool" where
  "in_int64 n = (- (2 ^ 63) \<le> n \<and> n < 2 ^ 63)"

text \<open>
  \<^verbatim>\<open>attempts + 1\<close> as SQLite evaluates it: integer addition while the result fits in 64
  bits; from \<open>2^63 - 1\<close> the result is the REAL \<open>2^63\<close>, and adding 1 to a REAL of
  that size gives the same REAL back (neighbouring binary64 values are 2048 apart there).
\<close>

definition sql_add_one :: "int \<Rightarrow> int" where
  "sql_add_one a = (if a < 2 ^ 63 then a + 1 else a)"

section \<open>Exceptions, the console and the files\<close>

text \<open>
  The exceptions that occur are all subclasses of \<^verbatim>\<open>Exception\<close>; an exception value carries
  its class and the text \<^verbatim>\<open>str(e)\<close>.
\<close>

datatype exn_class =
  OperationalError | IntegrityError | OverflowError | TimeoutExpired | OtherException

datatype exn = Exn exn_class string

fun str :: "exn \<Rightarrow> string" where
  "str (Exn c m) = m"

fun exn_class_of :: "exn \<Rightarrow> exn_class" where
  "exn_class_of (Exn c m) = c"

text \<open>
  Every \<^verbatim>\<open>print\<close> of the program is an entry of the trace, with the values its f-string
  interpolates as arguments; \<^verbatim>\<open>time.sleep\<close> leaves an entry too. The standard output is
  taken to accept every message.
\<close>

text \<open>
  A finite Python float is the real number it denotes; \<open>NotFinite\<close> stands for an
  infinity or a NaN.
\<close>

datatype pyfloat = Finite real | NotFinite

datatype message =
  MsgCompleted string
| MsgDead string int
| MsgRetry string pyfloat
| MsgContention string
| MsgWorkerStarting
| MsgProcessing string
| MsgUnhandled string
| MsgShutdownGraceful

datatype event = Printed message | Slept real

text \<open>
  The state outside the process: the jobs table of the database file at each path, and the
  trace. A statement writes the file in place; what makes a transaction atomic is the
  connection's \<open>undo\<close> image, taken when the transaction begins and put back by
  \<^verbatim>\<open>rollback\<close>.
\<close>

record 't world =
  files :: "string \<Rightarrow> 't job list"
  trace :: "event list"

record 't conn =
  conn_path :: string
  undo :: "'t job list option"

definition print :: "message \<Rightarrow> 't world \<Rightarrow> 't world" where
  "print m w = w\<lparr>trace := trace w @ [Printed m]\<rparr>"

definition sleep :: "real \<Rightarrow> 't world \<Rightarrow> 't world" where
  "sleep s w = w\<lparr>trace := trace w @ [Slept s]\<rparr>"

text \<open>
  What the storage layer does is not decided by the program: \<open>fault\<close> says at which stage
  of a method, if at any, SQLite raises, and what. The stages are those of the source:
  \<^verbatim>\<open>get_connection()\<close> (connect and the two PRAGMAs), the BEGIN (explicit in \<^verbatim>\<open>dequeue\<close>,
  issued by the \<^verbatim>\<open>sqlite3\<close> module before an INSERT or UPDATE elsewhere), the statement, and
  \<^verbatim>\<open>conn.commit()\<close>.
\<close>

datatype stage = Connect | Begin | Statement | Commit

type_synonym fault = "(stage \<times> exn) option"

definition raises :: "fault \<Rightarrow> stage \<Rightarrow> exn option" where
  "raises f s = (case f of None \<Rightarrow> None | Some (s', e) \<Rightarrow> if s' = s then Some e else None)"

text \<open>
  \<^verbatim>\<open>db.py\<close> reads the path of the database file from the environment of the process when
  the module is loaded: \<^verbatim>\<open>DB_PATH = os.environ.get("QUEUECTL_DB_PATH", "queue.db")\<close>. Every
  function that opens a connection uses this global, so each takes the environment
  \<open>environ\<close> of its process as an argument.
\<close>

definition DB_PATH :: "(string \<rightharpoonup> string) \<Rightarrow> string" where
  "DB_PATH environ =
     (case environ ''QUEUECTL_DB_PATH'' of None \<Rightarrow> ''queue.db'' | Some p \<Rightarrow> p)"

definition get_connection :: "(string \<rightharpoonup> string) \<Rightarrow> fault \<Rightarrow> exn + 't conn" where
  "get_connection environ f =
     (case raises f Connect of
        Some e \<Rightarrow> Inl e
      | None \<Rightarrow> Inr \<lparr>conn_path = DB_PATH environ, undo = None\<rparr>)"

definition begin_transaction :: "'t conn \<Rightarrow> 't world \<Rightarrow> 't conn" where
  "begin_transaction c w = c\<lparr>undo := Some (files w (conn_path c))\<rparr>"

definition write_table :: "'t conn \<Rightarrow> 't job list \<Rightarrow> 't world \<Rightarrow> 't world" where
  "write_table c rows w = w\<lparr>files := (files w)(conn_path c := rows)\<rparr>"

definition commit :: "'t conn \<Rightarrow> 't conn" where
  "commit c = c\<lparr>undo := None\<rparr>"

definition rollback :: "'t conn \<Rightarrow> 't world \<Rightarrow> 't conn \<times> 't world" where
  "rollback c w =
     (case undo c of
        None \<Rightarrow> (c, w)
      | Some rows \<Rightarrow> (c\<lparr>undo := None\<rparr>, write_table c rows w))"

section \<open>\<^verbatim>\<open>SQLiteJobRepository.dequeue\<close>\<close>

text \<open>
  The WHERE clause of the inner SELECT:
  \<^verbatim>\<open>state = 'pending' AND (run_at IS NULL OR run_at <= strftime(..., 'now'))\<close>.
\<close>

definition eligible :: "('t::linorder) \<Rightarrow> 't job \<Rightarrow> bool" where
  "eligible now j =
     (state j = Pending \<and> (case run_at j of None \<Rightarrow> True | Some r \<Rightarrow> r \<le> now))"

text \<open>
  \<^verbatim>\<open>ORDER BY priority DESC, created_at ASC\<close>: \<open>before a b\<close> holds when row \<open>a\<close> sorts
  strictly before row \<open>b\<close>.
\<close>

definition before :: "('t::linorder) job \<Rightarrow> 't job \<Rightarrow> bool" where
  "before a b =
     (priority b < priority a \<or> (priority a = priority b \<and> created_at a < created_at b))"

text \<open>
  \<^verbatim>\<open>LIMIT 1\<close> after the ORDER BY. \<open>first_rows\<close> are the rows that no other candidate
  sorts before. When several rows tie on both sort keys, SQL leaves open which of them
  comes first (it depends on the plan and the index the engine walks); the number \<open>tie\<close>
  stands for that choice.
\<close>

definition first_rows :: "('t::linorder) \<Rightarrow> 't job list \<Rightarrow> 't job list" where
  "first_rows now rows =
     (let cands = filter (eligible now) rows
      in filter (\<lambda>j. list_all (\<lambda>k. \<not> before k j) cands) cands)"

definition select_id :: "('t::linorder) \<Rightarrow> nat \<Rightarrow> 't job list \<Rightarrow> string option" where
  "select_id now tie rows =
     (case first_rows now rows of
        [] \<Rightarrow> None
      | r # rs \<Rightarrow> Some (job_id ((r # rs) ! (tie mod length (r # rs)))))"

text \<open>
  The SET clause of the UPDATE: \<^verbatim>\<open>state = 'processing'\<close>, \<^verbatim>\<open>updated_at = strftime(..., 'now')\<close>,
  \<^verbatim>\<open>attempts = attempts + 1\<close>. No other column is assigned.
\<close>

definition claim_row :: "'t \<Rightarrow> 't job \<Rightarrow> 't job" where
  "claim_row now j =
     j\<lparr>state := Processing, updated_at := now, attempts := sql_add_one (attempts j)\<rparr>"

text \<open>
  The whole statement \<^verbatim>\<open>UPDATE jobs SET ... WHERE id = (SELECT ...) RETURNING *\<close> followed by
  \<^verbatim>\<open>fetchone()\<close>: when the subquery has no row, no row is updated and nothing is returned;
  otherwise every row with the selected id is updated and the first updated row is returned.
\<close>

definition dequeue_sql ::
  "('t::linorder) \<Rightarrow> nat \<Rightarrow> 't job list \<Rightarrow> 't job option \<times> 't job list" where
  "dequeue_sql now tie rows =
     (case select_id now tie rows of
        None \<Rightarrow> (None, rows)
      | Some i \<Rightarrow>
          (let rows' = map (\<lambda>j. if job_id j = i then claim_row now j else j) rows
           in (case filter (\<lambda>j. job_id j = i) rows' of
                 [] \<Rightarrow> None
               | r # _ \<Rightarrow> Some r,
               rows')))"

text \<open>
  The outer handler of \<^verbatim>\<open>dequeue\<close>: \<^verbatim>\<open>except sqlite3.OperationalError as e\<close> prints and
  returns \<^verbatim>\<open>None\<close>; an exception of any other class is not caught and leaves the method.
\<close>

definition dequeue_except :: "exn \<Rightarrow> 't world \<Rightarrow> (exn + 't job option) \<times> 't world" where
  "dequeue_except e w =
     (if exn_class_of e = OperationalError
      then (Inr None, print (MsgContention (str e)) w)
      else (Inl e, w))"

text \<open>
  \<^verbatim>\<open>dequeue\<close>, stage by stage. A fault in \<^verbatim>\<open>get_connection()\<close> or in
  \<^verbatim>\<open>BEGIN IMMEDIATE\<close> is outside the inner \<^verbatim>\<open>try\<close>; from the BEGIN on, the \<^verbatim>\<open>with\<close>
  block rolls the connection back when an exception passes through it. A fault in the
  statement or in the commit is caught by the inner handler, which calls
  \<^verbatim>\<open>conn.rollback()\<close> and re-raises, so the \<^verbatim>\<open>with\<close> block rolls back once more. A
  failing statement writes nothing (SQLite undoes a statement that fails); a failing commit
  comes after the statement has written.
\<close>

definition dequeue ::
  "(string \<rightharpoonup> string) \<Rightarrow> fault \<Rightarrow> ('t::linorder) \<Rightarrow> nat \<Rightarrow> 't world \<Rightarrow>
     (exn + 't job option) \<times> 't world" where
  "dequeue environ f now tie w =
     (case get_connection environ f of
        Inl e \<Rightarrow> dequeue_except e w
      | Inr c \<Rightarrow>
          (case raises f Begin of
             Some e \<Rightarrow> dequeue_except e (snd (rollback c w))
           | None \<Rightarrow>
               (let c1 = begin_transaction c w in
                case raises f Statement of
                  Some e \<Rightarrow>
                    (let (c2, w2) = rollback c1 w
                     in dequeue_except e (snd (rollback c2 w2)))
                | None \<Rightarrow>
                    (let (job_row, rows') = dequeue_sql now tie (files w (conn_path c1));
                         w1 = write_table c1 rows' w
                     in case raises f Commit of
                          Some e \<Rightarrow>
                            (let (c2, w2) = rollback c1 w1
                             in dequeue_except e (snd (rollback c2 w2)))
                        | None \<Rightarrow> (let c2 = commit c1 in (Inr job_row, w1))))))"

section \<open>The other methods of \<^verbatim>\<open>SQLiteJobRepository\<close>\<close>

text \<open>
  \<^verbatim>\<open>add\<close>, \<^verbatim>\<open>update_state\<close> and \<^verbatim>\<open>requeue\<close> have one shape:
  \<^verbatim>\<open>with get_connection() as conn: conn.execute(sql, args); conn.commit()\<close>. The \<^verbatim>\<open>sqlite3\<close>
  module begins a transaction before the statement; there is no handler, so an exception
  leaves the method, and on its way out the \<^verbatim>\<open>with\<close> block rolls the connection back.
  \<open>stmt\<close> is the statement: from the rows of the table it gives the method's result and
  the new rows, or the exception it raises by itself.
\<close>

definition with_connection ::
  "(string \<rightharpoonup> string) \<Rightarrow> fault \<Rightarrow> ('t job list \<Rightarrow> exn + 'r \<times> 't job list) \<Rightarrow> 't world \<Rightarrow>
     (exn + 'r) \<times> 't world" where
  "with_connection environ f stmt w =
     (case get_connection environ f of
        Inl e \<Rightarrow> (Inl e, w)
      | Inr c \<Rightarrow>
          (case raises f Begin of
             Some e \<Rightarrow> (Inl e, snd (rollback c w))
           | None \<Rightarrow>
               (let c1 = begin_transaction c w in
                case raises f Statement of
                  Some e \<Rightarrow> (Inl e, snd (rollback c1 w))
                | None \<Rightarrow>
                    (case stmt (files w (conn_path c1)) of
                       Inl e \<Rightarrow> (Inl e, snd (rollback c1 w))
                     | Inr (r, rows') \<Rightarrow>
                         (let w1 = write_table c1 rows' w
                          in case raises f Commit of
                               Some e \<Rightarrow> (Inl e, snd (rollback c1 w1))
                             | None \<Rightarrow> (let c2 = commit c1 in (Inr r, w1)))))))"

text \<open>
  \<^verbatim>\<open>add\<close>. The id is \<^verbatim>\<open>str(uuid.uuid4())\<close> and the two timestamps are \<^verbatim>\<open>get_iso_now()\<close>;
  both come from outside. Binding a Python integer that does not fit in 64 bits raises
  \<^verbatim>\<open>OverflowError\<close>; an id already in the table violates the PRIMARY KEY. \<^verbatim>\<open>attempts\<close>,
  \<^verbatim>\<open>stdout\<close> and \<^verbatim>\<open>stderr\<close> take the defaults of the schema.
\<close>

definition add_sql ::
  "string \<Rightarrow> 't \<Rightarrow> string \<Rightarrow> int \<Rightarrow> int \<Rightarrow> 't option \<Rightarrow> 't job list \<Rightarrow> exn + string \<times> 't job list" where
  "add_sql new_id now cmd retries prio run rows =
     (if \<not> in_int64 retries \<or> \<not> in_int64 prio
      then Inl (Exn OverflowError ''Python int too large to convert to SQLite INTEGER'')
      else if new_id \<in> set (map job_id rows)
      then Inl (Exn IntegrityError ''UNIQUE constraint failed: jobs.id'')
      else Inr (new_id,
             rows @ [\<lparr>job_id = new_id, command = cmd, state = Pending, attempts = 0,
                      max_retries = retries, created_at = now, updated_at = now,
                      priority = prio, run_at = run, stdout = None, stderr = None\<rparr>]))"

definition add ::
  "(string \<rightharpoonup> string) \<Rightarrow> fault \<Rightarrow> string \<Rightarrow> 't \<Rightarrow> string \<Rightarrow> int \<Rightarrow> int \<Rightarrow> 't option \<Rightarrow> 't world \<Rightarrow>
     (exn + string) \<times> 't world" where
  "add environ f new_id now cmd retries prio run w =
     with_connection environ f (add_sql new_id now cmd retries prio run) w"


text \<open>
  \<^verbatim>\<open>update_state\<close>. The UPDATE assigns \<^verbatim>\<open>state\<close>, \<^verbatim>\<open>updated_at\<close> and \<^verbatim>\<open>run_at\<close> from its
  arguments, and \<^verbatim>\<open>stdout = COALESCE(?, stdout)\<close>, \<^verbatim>\<open>stderr = COALESCE(?, stderr)\<close>: an
  argument that is \<^verbatim>\<open>None\<close> keeps the stored value. \<^verbatim>\<open>now\<close> is \<^verbatim>\<open>get_iso_now()\<close>.
\<close>

definition update_row ::
  "job_state \<Rightarrow> 't \<Rightarrow> string option \<Rightarrow> string option \<Rightarrow> 't option \<Rightarrow> 't job \<Rightarrow> 't job" where
  "update_row st now out err run j =
     j\<lparr>state := st, updated_at := now,
       stdout := (case out of None \<Rightarrow> stdout j | Some v \<Rightarrow> Some v),
       stderr := (case err of None \<Rightarrow> stderr j | Some v \<Rightarrow> Some v),
       run_at := run\<rparr>"

definition update_state_sql ::
  "'t \<Rightarrow> string \<Rightarrow> job_state \<Rightarrow> string option \<Rightarrow> string option \<Rightarrow> 't option \<Rightarrow> 't job list \<Rightarrow>
     exn + unit \<times> 't job list" where
  "update_state_sql now i st out err run rows =
     Inr ((), map (\<lambda>j. if job_id j = i then update_row st now out err run j else j) rows)"

definition update_state ::
  "(string \<rightharpoonup> string) \<Rightarrow> fault \<Rightarrow> 't \<Rightarrow> string \<Rightarrow> job_state \<Rightarrow> string option \<Rightarrow> string option \<Rightarrow>
     't option \<Rightarrow> 't world \<Rightarrow> (exn + unit) \<times> 't world" where
  "update_state environ f now i st out err run w =
     with_connection environ f (update_state_sql now i st out err run) w"

text \<open>
  \<^verbatim>\<open>requeue\<close>: the UPDATE has \<^verbatim>\<open>WHERE id = ? AND state = 'dead'\<close>, and the method returns
  \<^verbatim>\<open>cursor.rowcount > 0\<close>.
\<close>

definition requeue_row :: "'t \<Rightarrow> 't job \<Rightarrow> 't job" where
  "requeue_row now j =
     j\<lparr>state := Pending, attempts := 0, updated_at := now,
       run_at := None, stdout := None, stderr := None\<rparr>"

definition requeue_sql :: "'t \<Rightarrow> string \<Rightarrow> 't job list \<Rightarrow> exn + bool \<times> 't job list" where
  "requeue_sql now i rows =
     (let hit = (\<lambda>j. job_id j = i \<and> state j = Dead);
          rowcount = length (filter hit rows)
      in Inr (0 < rowcount, map (\<lambda>j. if hit j then requeue_row now j else j) rows))"

definition requeue ::
  "(string \<rightharpoonup> string) \<Rightarrow> fault \<Rightarrow> 't \<Rightarrow> string \<Rightarrow> 't world \<Rightarrow> (exn + bool) \<times> 't world" where
  "requeue environ f now i w = with_connection environ f (requeue_sql now i) w"

section \<open>\<^verbatim>\<open>core.py\<close>\<close>

text \<open>
  \<^verbatim>\<open>WorkerConfig\<close> holds \<^verbatim>\<open>float(backoff_base)\<close>, a finite float.
\<close>

record config =
  backoff_base :: real

text \<open>
  \<^verbatim>\<open>calculate_backoff\<close> computes in binary64 and with \<^verbatim>\<open>datetime\<close>. The library operations it
  calls are arguments of the model, collected in \<open>runtime\<close>, and are not given a
  definition here:
  \<^item> \<open>float_pow b n\<close> is \<^verbatim>\<open>b ** n\<close> (the C library's \<^verbatim>\<open>pow\<close>; Python raises where the
    result overflows or is not defined);
  \<^item> \<open>float_mul x y\<close> is \<^verbatim>\<open>x * y\<close>, rounded, which may be an infinity;
  \<^item> \<open>timedelta_seconds x\<close> is \<^verbatim>\<open>datetime.timedelta(seconds=x)\<close> in microseconds, rounded
    by the constructor, which raises for an argument that is not finite or too large;
  \<^item> \<open>strftime\<close> is \<^verbatim>\<open>strftime('%Y-%m-%dT%H:%M:%SZ')\<close> on an instant given in microseconds
    since the epoch.
  Instants are integers, in microseconds: the resolution of \<^verbatim>\<open>datetime\<close>.
\<close>

record 't runtime =
  float_pow :: "real \<Rightarrow> int \<Rightarrow> exn + real"
  float_mul :: "real \<Rightarrow> real \<Rightarrow> pyfloat"
  timedelta_seconds :: "pyfloat \<Rightarrow> exn + int"
  strftime :: "int \<Rightarrow> 't"

text \<open>
  \<^verbatim>\<open>datetime + timedelta\<close> is exact, and raises \<^verbatim>\<open>OverflowError\<close> when the result is
  not between \<^verbatim>\<open>0001-01-01T00:00:00\<close> and \<^verbatim>\<open>9999-12-31T23:59:59.999999\<close>.
\<close>

definition datetime_add :: "int \<Rightarrow> int \<Rightarrow> exn + int" where
  "datetime_add t d =
     (if - 62135596800 * 1000000 \<le> t + d \<and> t + d < 253402300800 * 1000000
      then Inr (t + d)
      else Inl (Exn OverflowError ''date value out of range''))"

text \<open>
  What a call reads from outside the process: the fault of its storage access, the value
  of \<^verbatim>\<open>get_iso_now()\<close>, the draw \<^verbatim>\<open>random.uniform(0.8, 1.2)\<close> and the clock
  \<^verbatim>\<open>datetime.now(timezone.utc)\<close>.
\<close>

record 't env =
  storage :: fault
  iso_now :: 't
  uniform :: real
  utc_now :: int

definition calculate_backoff ::
  "'t runtime \<Rightarrow> 't env \<Rightarrow> 't job \<Rightarrow> config \<Rightarrow> exn + pyfloat \<times> 't" where
  "calculate_backoff rt env job cfg =
     (case float_pow rt (backoff_base cfg) (attempts job) of
        Inl e \<Rightarrow> Inl e
      | Inr delay_seconds \<Rightarrow>
          (let jitter = uniform env;
               delay_with_jitter = float_mul rt delay_seconds jitter
           in case timedelta_seconds rt delay_with_jitter of
                Inl e \<Rightarrow> Inl e
              | Inr td \<Rightarrow>
                  (case datetime_add (utc_now env) td of
                     Inl e \<Rightarrow> Inl e
                   | Inr next_run_time \<Rightarrow> Inr (delay_with_jitter, strftime rt next_run_time))))"

definition complete_job ::
  "(string \<rightharpoonup> string) \<Rightarrow> 't env \<Rightarrow> 't job \<Rightarrow> string \<Rightarrow> string \<Rightarrow> 't world \<Rightarrow> (exn + unit) \<times> 't world" where
  "complete_job environ env job out err w =
     update_state environ (storage env) (iso_now env) (job_id job) Completed (Some out) (Some err)
       None (print (MsgCompleted (job_id job)) w)"

definition fail_job ::
  "(string \<rightharpoonup> string) \<Rightarrow> 't runtime \<Rightarrow> 't env \<Rightarrow> 't job \<Rightarrow> string \<Rightarrow> config \<Rightarrow> 't world \<Rightarrow>
     (exn + unit) \<times> 't world" where
  "fail_job environ rt env job err cfg w =
     (if max_retries job \<le> attempts job
      then update_state environ (storage env) (iso_now env) (job_id job) Dead None (Some err) None
             (print (MsgDead (job_id job) (max_retries job)) w)
      else
        (case calculate_backoff rt env job cfg of
           Inl e \<Rightarrow> (Inl e, w)
         | Inr (delay_seconds, next_run_at) \<Rightarrow>
             update_state environ (storage env) (iso_now env) (job_id job) Pending None (Some err)
               (Some next_run_at) (print (MsgRetry (job_id job) delay_seconds) w)))"

section \<open>\<^verbatim>\<open>worker.py\<close>\<close>

text \<open>
  What \<^verbatim>\<open>subprocess.run(command, shell=True, capture_output=True, text=True, timeout=60)\<close>
  does with a command line is an argument, \<open>shell\<close>: it returns an exit code with the two
  captured texts, or raises (\<^verbatim>\<open>TimeoutExpired\<close> after the timeout, another exception when
  the command cannot be launched or its output cannot be decoded).
\<close>

datatype completed_process = Returned int string string | Raised exn

text \<open>
  The two \<^verbatim>\<open>except\<close> clauses of \<^verbatim>\<open>process_job\<close>, in the order of the source. They guard
  the whole \<^verbatim>\<open>try\<close> block, so they also catch what \<^verbatim>\<open>complete_job\<close> or \<^verbatim>\<open>fail_job\<close>
  raise inside it.
\<close>

definition process_job_except ::
  "(string \<rightharpoonup> string) \<Rightarrow> 't runtime \<Rightarrow> 't env \<Rightarrow> 't job \<Rightarrow> config \<Rightarrow> exn \<Rightarrow> 't world \<Rightarrow>
     (exn + unit) \<times> 't world" where
  "process_job_except environ rt env job cfg e w =
     (if exn_class_of e = TimeoutExpired
      then fail_job environ rt env job ''Job timed out after 60s.'' cfg w
      else fail_job environ rt env job (''Subprocess execution failed: '' @ str e) cfg w)"

definition process_job ::
  "(string \<rightharpoonup> string) \<Rightarrow> 't runtime \<Rightarrow> (string \<Rightarrow> completed_process) \<Rightarrow> 't env \<Rightarrow> 't env \<Rightarrow>
     't job \<Rightarrow> config \<Rightarrow> 't world \<Rightarrow> (exn + unit) \<times> 't world" where
  "process_job environ rt shell env1 env2 job cfg w =
     (case shell (command job) of
        Raised e \<Rightarrow> process_job_except environ rt env1 job cfg e w
      | Returned returncode out err \<Rightarrow>
          (case (if returncode = 0
                 then complete_job environ env1 job out err w
                 else fail_job environ rt env1 job
                        (if err = [] then ''Job failed with non-zero exit code'' else err) cfg w) of
             (Inr u, w1) \<Rightarrow> (Inr u, w1)
           | (Inl e, w1) \<Rightarrow> process_job_except environ rt env2 job cfg e w1))"

text \<open>
  One pass of the \<^verbatim>\<open>while\<close> loop of \<^verbatim>\<open>Worker.run\<close> reads a \<open>tick\<close>: whether the shutdown
  flag is set at the head of the loop, and everything the calls of that pass read from
  outside.
\<close>

record 't tick =
  shutdown :: bool
  dequeue_fault :: fault
  dequeue_now :: 't
  dequeue_tie :: nat
  run_shell :: "string \<Rightarrow> completed_process"
  first_call :: "'t env"
  handler_call :: "'t env"
  outer_call :: "'t env"

datatype loop_end = Stopped | StillRunning

text \<open>
  The loop runs for as long as there are ticks. It ends with \<open>Stopped\<close> when it finds
  the flag set, with \<open>StillRunning\<close> when the ticks are used up, and with an exception
  when \<^verbatim>\<open>fail_job\<close> raises inside the outermost handler.
\<close>

fun run_loop ::
  "(string \<rightharpoonup> string) \<Rightarrow> ('t::linorder) runtime \<Rightarrow> config \<Rightarrow> real \<Rightarrow> 't tick list \<Rightarrow> 't world \<Rightarrow>
     (exn + loop_end) \<times> 't world" where
  "run_loop environ rt cfg poll_interval [] w = (Inr StillRunning, w)"
| "run_loop environ rt cfg poll_interval (t # ts) w =
     (if shutdown t then (Inr Stopped, print MsgShutdownGraceful w)
      else
        (case dequeue environ (dequeue_fault t) (dequeue_now t) (dequeue_tie t) w of
           (Inl e, w1) \<Rightarrow> run_loop environ rt cfg poll_interval ts (print (MsgUnhandled (str e)) w1)
         | (Inr None, w1) \<Rightarrow> run_loop environ rt cfg poll_interval ts (sleep poll_interval w1)
         | (Inr (Some job), w1) \<Rightarrow>
             (case process_job environ rt (run_shell t) (first_call t) (handler_call t) job cfg
                     (print (MsgProcessing (job_id job)) w1) of
                (Inr u, w2) \<Rightarrow> run_loop environ rt cfg poll_interval ts w2
              | (Inl e, w2) \<Rightarrow>
                  (case fail_job environ rt (outer_call t) job (str e) cfg
                          (print (MsgUnhandled (str e)) w2) of
                     (Inr u, w3) \<Rightarrow> run_loop environ rt cfg poll_interval ts w3
                   | (Inl e', w3) \<Rightarrow> (Inl e', w3)))))"

definition run ::
  "(string \<rightharpoonup> string) \<Rightarrow> ('t::linorder) runtime \<Rightarrow> config \<Rightarrow> real \<Rightarrow> 't tick list \<Rightarrow> 't world \<Rightarrow>
     (exn + loop_end) \<times> 't world" where
  "run environ rt cfg poll_interval ts w =
     run_loop environ rt cfg poll_interval ts (print MsgWorkerStarting w)"

section \<open>The stores that the core operations can build\<close>

text \<open>
  \<open>reachable\<close> holds of the states that arise from empty tables by \<^verbatim>\<open>add\<close>, \<^verbatim>\<open>dequeue\<close>,
  \<^verbatim>\<open>complete_job\<close>, \<^verbatim>\<open>fail_job\<close> and \<^verbatim>\<open>requeue\<close>, called with any arguments, in any
  environment and with any fault of the storage layer.
\<close>

inductive reachable :: "('t::linorder) runtime \<Rightarrow> 't world \<Rightarrow> bool" for rt :: "'t runtime" where
  initial: "(\<And>p. files w p = []) \<Longrightarrow> reachable rt w"
| by_add: "reachable rt w \<Longrightarrow> reachable rt (snd (add environ f new_id now cmd retries prio ra w))"
| by_dequeue: "reachable rt w \<Longrightarrow> reachable rt (snd (dequeue environ f now tie w))"
| by_complete_job:
    "reachable rt w \<Longrightarrow> reachable rt (snd (complete_job environ env job out err w))"
| by_fail_job:
    "reachable rt w \<Longrightarrow> reachable rt (snd (fail_job environ rt env job err cfg w))"
| by_requeue: "reachable rt w \<Longrightarrow> reachable rt (snd (requeue environ f now i w))"

definition no_failed :: "'t world \<Rightarrow> bool" where
  "no_failed w = (\<forall>p. \<forall>j\<in>set (files w p). state j \<noteq> Failed)"

section \<open>Data for the examples\<close>

text \<open>
  A runtime for the examples: powers and products are computed exactly, which is what
  binary64 gives whenever the exact result is a binary64 number; \<^verbatim>\<open>timedelta\<close> rounds to the
  nearest microsecond, halves to even, within its range of 999999999 days; a timestamp is
  counted in whole seconds since the epoch, which orders as the formatted text does for the
  years 1000 to 9999.
\<close>

definition round_half_even :: "real \<Rightarrow> int" where
  "round_half_even x =
     (let f = \<lfloor>x\<rfloor>; r = x - of_int f
      in if r < 1 / 2 then f else if 1 / 2 < r then f + 1 else if even f then f else f + 1)"

definition exact_runtime :: "int runtime" where
  "exact_runtime =
     \<lparr>float_pow =
        (\<lambda>b n. if 0 \<le> n then Inr (b ^ nat n)
               else if b = 0
               then Inl (Exn OtherException ''0.0 cannot be raised to a negative power'')
               else Inr (1 / b ^ nat (- n))),
      float_mul = (\<lambda>x y. Finite (x * y)),
      timedelta_seconds =
        (\<lambda>x. case x of
               NotFinite \<Rightarrow> Inl (Exn OverflowError ''cannot convert float infinity to integer'')
             | Finite d \<Rightarrow>
                 (let us = round_half_even (d * 1000000)
                  in if - 999999999 * 86400000000 \<le> us \<and> us < 1000000000 * 86400000000
                     then Inr us
                     else Inl (Exn OverflowError ''days out of range''))),
      strftime = (\<lambda>t. t div 1000000)\<rparr>"

definition quiet_env :: "int env" where
  "quiet_env = \<lparr>storage = None, iso_now = 1000, uniform = 1, utc_now = 1000000000\<rparr>"

definition locked_tick :: "int tick" where
  "locked_tick =
     \<lparr>shutdown = False,
      dequeue_fault = Some (Commit, Exn OperationalError ''database is locked''),
      dequeue_now = 1000, dequeue_tie = 0,
      run_shell = (\<lambda>c. Returned 0 [] []),
      first_call = quiet_env, handler_call = quiet_env, outer_call = quiet_env\<rparr>"

definition empty_world :: "int world" where
  "empty_world = \<lparr>files = (\<lambda>p. []), trace = []\<rparr>"



definition row_a :: "int job" where
  "row_a =
     \<lparr>job_id = ''a'', command = ''true'', state = Pending, attempts = 0,
      max_retries = 3, created_at = 100, updated_at = 100, priority = 0, run_at = None,
      stdout = None, stderr = None\<rparr>"

definition row_b :: "int job" where
  "row_b =
     \<lparr>job_id = ''b'', command = ''false'', state = Pending, attempts = 1,
      max_retries = 3, created_at = 200, updated_at = 300, priority = 5, run_at = Some 900,
      stdout = None, stderr = Some ''boom''\<rparr>"

definition row_c :: "int job" where
  "row_c =
     \<lparr>job_id = ''c'', command = ''sleep 1'', state = Pending, attempts = 0,
      max_retries = 3, created_at = 150, updated_at = 150, priority = 5, run_at = Some 2000,
      stdout = None, stderr = None\<rparr>"

definition row_d :: "int job" where
  "row_d =
     \<lparr>job_id = ''d'', command = ''true'', state = Dead, attempts = 3,
      max_retries = 3, created_at = 50, updated_at = 400, priority = 9, run_at = None,
      stdout = Some ''out'', stderr = Some ''err''\<rparr>"

definition queue_world :: "int world" where
  "queue_world =
     \<lparr>files = (\<lambda>p. if p = ''queue.db'' then [row_a, row_b, row_c, row_d] else []), trace = []\<rparr>"

text \<open>
  The table of \<open>queue_world\<close> after job \<open>b\<close> has been claimed at time 1000, and the row that
  the claim returned.
\<close>

definition claimed_b :: "int job" where
  "claimed_b = row_b\<lparr>state := Processing, updated_at := 1000, attempts := 2\<rparr>"

definition processing_world :: "int world" where
  "processing_world =
     \<lparr>files = (\<lambda>p. if p = ''queue.db'' then [row_a, claimed_b, row_c, row_d] else []),
      trace = []\<rparr>"

section \<open>Properties of the repository\<close>

lemma print_files [simp]: "files (print m w) = files w"
  by (simp add: print_def)

lemma sleep_files [simp]: "files (sleep s w) = files w"
  by (simp add: sleep_def)

lemma rollback_fresh: "undo c = None \<Longrightarrow> rollback c w = (c, w)"
  by (simp add: rollback_def)

lemma rollback_restores:
  "rollback (begin_transaction c w) (write_table (begin_transaction c w) rows w) =
     ((begin_transaction c w)\<lparr>undo := None\<rparr>, w)"
  by (simp add: rollback_def begin_transaction_def write_table_def)

lemma rollback_unwritten:
  "rollback (begin_transaction c w) w = ((begin_transaction c w)\<lparr>undo := None\<rparr>, w)"
  by (simp add: rollback_def begin_transaction_def write_table_def)

lemma dequeue_operational_error:
  "dequeue environ (Some (s, Exn OperationalError m)) now tie w =
     (Inr None, print (MsgContention m) w)"
proof (cases s)
  case Connect
  then show ?thesis
    by (simp add: dequeue_def get_connection_def raises_def dequeue_except_def)
next
  case Begin
  then show ?thesis
    by (simp add: dequeue_def get_connection_def raises_def dequeue_except_def rollback_def)
next
  case Statement
  then show ?thesis
    by (simp add: dequeue_def get_connection_def raises_def dequeue_except_def Let_def
        rollback_unwritten rollback_fresh)
next
  case Commit
  then show ?thesis
    by (simp add: dequeue_def get_connection_def raises_def dequeue_except_def Let_def
        rollback_restores rollback_fresh split_def)
qed

text \<open>
  Claim C8. Whenever the storage layer raises \<^verbatim>\<open>sqlite3.OperationalError\<close> during a claim,
  at whichever stage (opening the connection, \<^verbatim>\<open>BEGIN IMMEDIATE\<close>, the statement, the
  commit), \<^verbatim>\<open>dequeue\<close> returns \<^verbatim>\<open>None\<close> instead of raising, after printing its message, and
  the tables are as they were: what the statement wrote before a failing commit is rolled
  back. The caller absorbs it: a pass of the loop of \<^verbatim>\<open>Worker.run\<close> in which this happens
  sleeps for the poll interval and goes on with the next pass.
\<close>

theorem dequeue_contention_returns_empty:
  "dequeue environ (Some (s, Exn OperationalError m)) now tie w =
     (Inr None, print (MsgContention m) w) \<and>
   files (snd (dequeue environ (Some (s, Exn OperationalError m)) now tie w)) = files w \<and>
   (\<not> shutdown t \<and> dequeue_fault t = Some (s, Exn OperationalError m) \<longrightarrow>
      run_loop environ rt cfg poll_interval (t # ts) w =
        run_loop environ rt cfg poll_interval ts (sleep poll_interval (print (MsgContention m) w)))"
proof (intro conjI impI)
  show "dequeue environ (Some (s, Exn OperationalError m)) now tie w =
     (Inr None, print (MsgContention m) w)"
    by (rule dequeue_operational_error)
  show "files (snd (dequeue environ (Some (s, Exn OperationalError m)) now tie w)) = files w"
    by (simp add: dequeue_operational_error)
next
  assume a: "\<not> shutdown t \<and> dequeue_fault t = Some (s, Exn OperationalError m)"
  then have "dequeue environ (dequeue_fault t) (dequeue_now t) (dequeue_tie t) w =
     (Inr None, print (MsgContention m) w)"
    by (simp add: dequeue_operational_error)
  then show "run_loop environ rt cfg poll_interval (t # ts) w =
        run_loop environ rt cfg poll_interval ts (sleep poll_interval (print (MsgContention m) w))"
    using a by simp
qed

theorem dequeue_contention_returns_empty_witness:
  "\<not> shutdown locked_tick \<and>
   dequeue_fault locked_tick = Some (Commit, Exn OperationalError ''database is locked'') \<and>
   run_loop Map.empty exact_runtime \<lparr>backoff_base = 2\<rparr> 1 [locked_tick] empty_world =
     (Inr StillRunning,
      empty_world\<lparr>trace := [Printed (MsgContention ''database is locked''), Slept 1]\<rparr>)"
  using dequeue_contention_returns_empty
    [where t = locked_tick and s = Commit and m = "''database is locked''" and ts = "[]"
       and w = empty_world and environ = Map.empty and rt = exact_runtime
       and cfg = "\<lparr>backoff_base = 2\<rparr>" and poll_interval = 1]
  by (simp add: locked_tick_def empty_world_def sleep_def print_def)

subsection \<open>The row that \<^verbatim>\<open>dequeue\<close> selects\<close>


lemma not_before_self: "\<not> before a a"
  by (simp add: before_def)

lemma before_asym: "before a b \<Longrightarrow> \<not> before b a"
  by (auto simp: before_def)

lemma before_trans:
  assumes "before a b" and "before b c"
  shows "before a c"
proof -
  have ab: "priority b < priority a \<or> (priority a = priority b \<and> created_at a < created_at b)"
    using assms(1) by (simp add: before_def)
  have bc: "priority c < priority b \<or> (priority b = priority c \<and> created_at b < created_at c)"
    using assms(2) by (simp add: before_def)
  show ?thesis
  proof (cases "priority b < priority a")
    case True
    then have "priority c < priority a" using bc by auto
    then show ?thesis by (simp add: before_def)
  next
    case False
    then have e: "priority a = priority b" "created_at a < created_at b" using ab by simp_all
    show ?thesis
    proof (cases "priority c < priority b")
      case True
      then show ?thesis using e(1) by (simp add: before_def)
    next
      case False
      then have f: "priority b = priority c" "created_at b < created_at c" using bc by simp_all
      have "created_at a < created_at c" using e(2) f(2) by (rule less_trans)
      then show ?thesis using e(1) f(1) by (simp add: before_def)
    qed
  qed
qed

lemma ex_first_row:
  "cands \<noteq> [] \<Longrightarrow> \<exists>j\<in>set cands. \<forall>k\<in>set cands. \<not> before k j"
proof (induction cands)
  case Nil
  then show ?case by simp
next
  case (Cons x xs)
  show ?case
  proof (cases "xs = []")
    case True
    then show ?thesis by (simp add: not_before_self)
  next
    case False
    from Cons.IH[OF False] obtain m where m: "m \<in> set xs" "\<forall>k\<in>set xs. \<not> before k m"
      by blast
    show ?thesis
    proof (cases "before x m")
      case True
      have "\<forall>k\<in>set (x # xs). \<not> before k x"
      proof
        fix k assume k: "k \<in> set (x # xs)"
        show "\<not> before k x"
        proof (cases "k = x")
          case True
          then show ?thesis by (simp add: not_before_self)
        next
          case False
          then have "k \<in> set xs" using k by simp
          then have nm: "\<not> before k m" using m(2) by simp
          show ?thesis
          proof
            assume "before k x"
            then have "before k m" using True by (rule before_trans)
            with nm show False by simp
          qed
        qed
      qed
      then show ?thesis by (intro bexI[of _ x]) simp_all
    next
      case False
      have "\<forall>k\<in>set (x # xs). \<not> before k m" using False m(2) by simp
      then show ?thesis using m(1) by (intro bexI[of _ m]) simp_all
    qed
  qed
qed

lemma set_first_rows:
  "set (first_rows now rows) =
     {j \<in> set rows. eligible now j \<and> (\<forall>k\<in>set rows. eligible now k \<longrightarrow> \<not> before k j)}"
  by (auto simp: first_rows_def Let_def list_all_iff)

lemma first_rows_empty:
  "first_rows now rows = [] \<longleftrightarrow> (\<forall>j\<in>set rows. \<not> eligible now j)"
proof
  assume e: "first_rows now rows = []"
  show "\<forall>j\<in>set rows. \<not> eligible now j"
  proof (rule ccontr)
    assume "\<not> (\<forall>j\<in>set rows. \<not> eligible now j)"
    then have "filter (eligible now) rows \<noteq> []" by (simp add: filter_empty_conv)
    from ex_first_row[OF this] obtain j where
      j: "j \<in> set (filter (eligible now) rows)"
         "\<forall>k\<in>set (filter (eligible now) rows). \<not> before k j" by blast
    then have "j \<in> set (first_rows now rows)" by (simp add: set_first_rows)
    with e show False by simp
  qed
next
  assume "\<forall>j\<in>set rows. \<not> eligible now j"
  then have "set (first_rows now rows) = {}" by (simp add: set_first_rows)
  then show "first_rows now rows = []" by simp
qed

lemma select_id_None:
  "select_id now tie rows = None \<longleftrightarrow> (\<forall>j\<in>set rows. \<not> eligible now j)"
proof (cases "first_rows now rows")
  case Nil
  then show ?thesis using first_rows_empty[of now rows] by (simp add: select_id_def)
next
  case (Cons r rs)
  then have "first_rows now rows \<noteq> []" by simp
  then have "\<not> (\<forall>j\<in>set rows. \<not> eligible now j)" by (simp add: first_rows_empty)
  then show ?thesis using Cons by (simp add: select_id_def)
qed

lemma select_id_Some:
  assumes "select_id now tie rows = Some i"
  shows "\<exists>j\<in>set rows. job_id j = i \<and> eligible now j \<and>
           (\<forall>k\<in>set rows. eligible now k \<longrightarrow> \<not> before k j)"
proof -
  from assms obtain r rs where f: "first_rows now rows = r # rs"
    and i: "i = job_id ((r # rs) ! (tie mod length (r # rs)))"
    by (cases "first_rows now rows") (simp_all add: select_id_def)
  define j where "j = (r # rs) ! (tie mod length (r # rs))"
  have "tie mod length (r # rs) < length (r # rs)" by simp
  then have "j \<in> set (r # rs)" unfolding j_def by (rule nth_mem)
  then have "j \<in> set (first_rows now rows)" using f by simp
  then have "j \<in> set rows \<and> eligible now j \<and> (\<forall>k\<in>set rows. eligible now k \<longrightarrow> \<not> before k j)"
    by (simp add: set_first_rows)
  moreover have "job_id j = i" using i by (simp add: j_def)
  ultimately show ?thesis by blast
qed

lemma filter_id_unique:
  "distinct_ids rows \<Longrightarrow> j \<in> set rows \<Longrightarrow> filter (\<lambda>x. job_id x = job_id j) rows = [j]"
proof (induction rows)
  case Nil then show ?case by simp
next
  case (Cons a as)
  have d: "job_id a \<notin> job_id ` set as" "distinct_ids as"
    using Cons.prems(1) by (simp_all add: distinct_ids_def)
  show ?case
  proof (cases "a = j")
    case True
    have "\<forall>x\<in>set as. job_id x \<noteq> job_id j" using d(1) True by (metis imageI)
    then have "filter (\<lambda>x. job_id x = job_id j) as = []" by (simp add: filter_empty_conv)
    then show ?thesis using True by simp
  next
    case False
    then have m: "j \<in> set as" using Cons.prems by simp
    then have "job_id a \<noteq> job_id j" using d(1) by (metis imageI)
    then show ?thesis using Cons.IH[OF d(2) m] by simp
  qed
qed

lemma distinct_ids_unique:
  assumes "distinct_ids rows" "j \<in> set rows" "k \<in> set rows" "job_id j = job_id k"
  shows "j = k"
proof -
  have "filter (\<lambda>x. job_id x = job_id j) rows = [j]" using assms(1,2) by (rule filter_id_unique)
  moreover have "k \<in> set (filter (\<lambda>x. job_id x = job_id j) rows)" using assms(3,4) by simp
  ultimately show ?thesis by simp
qed

lemma job_id_claim_row: "job_id (claim_row now x) = job_id x"
  by (simp add: claim_row_def)

lemma dequeue_sql_none:
  assumes "\<forall>j\<in>set rows. \<not> eligible now j"
  shows "dequeue_sql now tie rows = (None, rows)"
proof -
  have "select_id now tie rows = None" using assms by (simp add: select_id_None)
  then show ?thesis by (simp add: dequeue_sql_def)
qed

lemma dequeue_sql_some:
  assumes d: "distinct_ids rows" and e: "\<exists>j\<in>set rows. eligible now j"
  shows "\<exists>j\<in>set rows. eligible now j \<and> (\<forall>k\<in>set rows. eligible now k \<longrightarrow> \<not> before k j) \<and>
           dequeue_sql now tie rows =
             (Some (claim_row now j), map (\<lambda>x. if x = j then claim_row now j else x) rows)"
proof -
  from e have "select_id now tie rows \<noteq> None" by (simp add: select_id_None)
  then obtain i where i: "select_id now tie rows = Some i"
    by (cases "select_id now tie rows") simp_all
  from select_id_Some[OF i] obtain j where j: "j \<in> set rows" "job_id j = i" "eligible now j"
    "\<forall>k\<in>set rows. eligible now k \<longrightarrow> \<not> before k j" by blast
  define f where "f = (\<lambda>x. if job_id x = i then claim_row now x else x)"
  define g where "g = (\<lambda>x. if x = j then claim_row now j else x)"
  have m: "map f rows = map g rows"
  proof (rule map_cong[OF refl])
    fix x assume x: "x \<in> set rows"
    show "f x = g x"
    proof (cases "x = j")
      case True
      then show ?thesis using j(2) by (simp add: f_def g_def)
    next
      case False
      have "job_id x \<noteq> i"
      proof
        assume "job_id x = i"
        then have "job_id x = job_id j" using j(2) by simp
        from distinct_ids_unique[OF d x j(1) this] False show False by simp
      qed
      then show ?thesis using False by (simp add: f_def g_def)
    qed
  qed
  have idf: "job_id (f x) = job_id x" for x
    by (simp add: f_def job_id_claim_row)
  have "filter (\<lambda>x. job_id x = i) (map f rows) = map f (filter (\<lambda>x. job_id (f x) = i) rows)"
    by (simp add: filter_map o_def)
  also have "\<dots> = map f (filter (\<lambda>x. job_id x = job_id j) rows)"
    by (simp only: idf j(2))
  also have "\<dots> = map f [j]" by (simp only: filter_id_unique[OF d j(1)])
  also have "\<dots> = [claim_row now j]" using j(2) by (simp add: f_def)
  finally have r: "filter (\<lambda>x. job_id x = i) (map f rows) = [claim_row now j]" .
  have "dequeue_sql now tie rows =
          (case filter (\<lambda>x. job_id x = i) (map f rows) of [] \<Rightarrow> None | r # _ \<Rightarrow> Some r, map f rows)"
    by (simp add: dequeue_sql_def i f_def Let_def)
  also have "\<dots> = (Some (claim_row now j), map f rows)"
    by (simp only: r list.case)
  also have "\<dots> = (Some (claim_row now j), map g rows)"
    by (simp only: m)
  finally have q: "dequeue_sql now tie rows =
     (Some (claim_row now j), map (\<lambda>x. if x = j then claim_row now j else x) rows)"
    by (simp only: g_def)
  show ?thesis
    by (rule bexI[of _ j]) (intro conjI j(3) j(4) q, rule j(1))
qed

lemma dequeue_no_fault:
  "dequeue environ None now tie w =
     (Inr (fst (dequeue_sql now tie (files w (DB_PATH environ)))),
      w\<lparr>files := (files w)(DB_PATH environ :=
                    snd (dequeue_sql now tie (files w (DB_PATH environ))))\<rparr>)"
  by (simp add: dequeue_def get_connection_def raises_def Let_def split_def
      begin_transaction_def write_table_def)

lemma DB_PATH_empty: "DB_PATH Map.empty = ''queue.db''"
  by (simp add: DB_PATH_def)

lemma queue_eligible: "filter (eligible 1000) [row_a, row_b, row_c, row_d] = [row_a, row_b]"
  by (simp add: eligible_def row_a_def row_b_def row_c_def row_d_def)

lemma queue_first: "first_rows 1000 [row_a, row_b, row_c, row_d] = [row_b]"
  unfolding first_rows_def queue_eligible Let_def
  by (simp add: before_def row_a_def row_b_def)

lemma queue_dequeue_sql:
  "dequeue_sql 1000 tie [row_a, row_b, row_c, row_d] =
     (Some (claim_row 1000 row_b), [row_a, claim_row 1000 row_b, row_c, row_d])"
  by (simp add: dequeue_sql_def select_id_def queue_first job_id_claim_row)
     (simp add: row_a_def row_b_def row_c_def row_d_def)




text \<open>
  Claim C4, as amended. \<^verbatim>\<open>dequeue\<close> does not clear \<^verbatim>\<open>run_at\<close>: the row it returns and writes
  has the \<^verbatim>\<open>run_at\<close> that the pending row had before the claim.
\<close>

theorem dequeue_keeps_run_at:
  assumes d: "distinct_ids (files w (DB_PATH environ))"
    and q: "dequeue environ None now tie w = (Inr (Some r), w')"
  shows "\<exists>j\<in>set (files w (DB_PATH environ)).
           job_id j = job_id r \<and> state j = Pending \<and> state r = Processing \<and>
           run_at r = run_at j \<and> r \<in> set (files w' (DB_PATH environ))"
proof -
  define rows where "rows = files w (DB_PATH environ)"
  have dr: "distinct_ids rows" using d by (simp add: rows_def)
  have ex: "\<exists>j\<in>set rows. eligible now j"
  proof (rule ccontr)
    assume "\<not> (\<exists>j\<in>set rows. eligible now j)"
    then have "\<forall>j\<in>set rows. \<not> eligible now j" by simp
    then have "dequeue_sql now tie rows = (None, rows)" by (rule dequeue_sql_none)
    then have "fst (dequeue environ None now tie w) = Inr None"
      by (simp add: dequeue_no_fault rows_def)
    with q show False by simp
  qed
  from dequeue_sql_some[OF dr ex, of tie] obtain j where j: "j \<in> set rows" "eligible now j"
    "dequeue_sql now tie rows =
       (Some (claim_row now j), map (\<lambda>x. if x = j then claim_row now j else x) rows)"
    by blast
  have e: "dequeue environ None now tie w =
      (Inr (Some (claim_row now j)),
       w\<lparr>files := (files w)(DB_PATH environ := map (\<lambda>x. if x = j then claim_row now j else x) rows)\<rparr>)"
    unfolding dequeue_no_fault rows_def[symmetric] j(3) by simp
  have r: "r = claim_row now j" using q e by simp
  have w': "files w' (DB_PATH environ) = map (\<lambda>x. if x = j then claim_row now j else x) rows"
    using q e by auto
  have m: "r \<in> set (files w' (DB_PATH environ))"
    unfolding w' r using j(1) by (simp add: image_iff)
  have "job_id j = job_id r" by (simp add: r claim_row_def)
  moreover have "state j = Pending" using j(2) by (simp add: eligible_def)
  moreover have "state r = Processing" by (simp add: r claim_row_def)
  moreover have "run_at r = run_at j" by (simp add: r claim_row_def)
  ultimately show ?thesis using j(1) m unfolding rows_def by (intro bexI[of _ j] conjI)
qed

text \<open>
  Claim C4 as stated fails: the row of \<open>queue_world\<close> that is claimed had \<^verbatim>\<open>run_at\<close> 900, and
  the post-claim row still has it.
\<close>

theorem dequeue_clears_run_at_counterexample:
  "run_at row_b = Some 900 \<and>
   fst (dequeue Map.empty None 1000 0 queue_world) =
     Inr (Some (row_b\<lparr>state := Processing, updated_at := 1000, attempts := 2\<rparr>)) \<and>
   run_at (row_b\<lparr>state := Processing, updated_at := 1000, attempts := 2\<rparr>) \<noteq> None"
proof -
  have c: "claim_row 1000 row_b = row_b\<lparr>state := Processing, updated_at := 1000, attempts := 2\<rparr>"
    by (simp add: claim_row_def sql_add_one_def row_b_def)
  have "fst (dequeue Map.empty None 1000 0 queue_world) =
     Inr (Some (row_b\<lparr>state := Processing, updated_at := 1000, attempts := 2\<rparr>))"
    by (simp add: dequeue_no_fault DB_PATH_empty queue_world_def queue_dequeue_sql c)
  then show ?thesis by (simp add: row_b_def)
qed

text \<open>
  Claim C4, as amended, on the same table.
\<close>

theorem dequeue_keeps_run_at_witness:
  "distinct_ids (files queue_world (DB_PATH Map.empty)) \<and>
   dequeue Map.empty None 1000 0 queue_world =
     (Inr (Some (claim_row 1000 row_b)),
      queue_world\<lparr>files := (files queue_world)
         (''queue.db'' := [row_a, claim_row 1000 row_b, row_c, row_d])\<rparr>) \<and>
   run_at (claim_row 1000 row_b) = Some 900 \<and>
   claim_row 1000 row_b \<in> set [row_a, claim_row 1000 row_b, row_c, row_d]"
proof -
  have d: "distinct_ids (files queue_world (DB_PATH Map.empty))"
    by (simp add: DB_PATH_empty queue_world_def distinct_ids_def row_a_def row_b_def row_c_def
        row_d_def)
  have q: "dequeue Map.empty None 1000 0 queue_world =
     (Inr (Some (claim_row 1000 row_b)),
      queue_world\<lparr>files := (files queue_world)
         (''queue.db'' := [row_a, claim_row 1000 row_b, row_c, row_d])\<rparr>)"
    by (simp add: dequeue_no_fault DB_PATH_empty queue_dequeue_sql queue_world_def)
  have r: "run_at (claim_row 1000 row_b) = Some 900"
    using dequeue_keeps_run_at[OF d q] by (simp add: claim_row_def row_b_def)
  from d q r show ?thesis by simp
qed

subsection \<open>\<^verbatim>\<open>update_state\<close> and \<^verbatim>\<open>requeue\<close>\<close>

lemma with_connection_no_fault:
  "with_connection environ None stmt w =
     (case stmt (files w (DB_PATH environ)) of
        Inl e \<Rightarrow> (Inl e, w)
      | Inr (r, rows') \<Rightarrow> (Inr r, w\<lparr>files := (files w)(DB_PATH environ := rows')\<rparr>))"
  by (simp add: with_connection_def get_connection_def raises_def Let_def rollback_def
      begin_transaction_def write_table_def split: sum.splits prod.splits)

lemma with_connection_fault:
  "with_connection environ (Some (s, e)) stmt w = (Inl e, w) \<or>
   (\<exists>e'. stmt (files w (DB_PATH environ)) = Inl e' \<and>
         with_connection environ (Some (s, e)) stmt w = (Inl e', w))"
  by (cases s)
     (auto simp: with_connection_def get_connection_def raises_def Let_def rollback_def
        write_table_def begin_transaction_def
        split: sum.splits prod.splits)

lemma update_state_fault:
  "update_state environ (Some (s, e)) now i st out err ra w = (Inl e, w)"
  using with_connection_fault[of environ s e "update_state_sql now i st out err ra" w]
  by (simp add: update_state_def update_state_sql_def)

text \<open>
  Claim C6. A call of \<^verbatim>\<open>update_state\<close> that meets no storage fault writes, in every row with
  the given id, \<^verbatim>\<open>state\<close>, \<^verbatim>\<open>updated_at\<close> and \<^verbatim>\<open>run_at\<close> from its arguments whatever the row
  held, also when the \<^verbatim>\<open>run_at\<close> argument is \<^verbatim>\<open>None\<close>; \<^verbatim>\<open>stdout\<close> and \<^verbatim>\<open>stderr\<close> are written
  only when the argument is given, and an omitted one leaves the stored value as it was.
  The other columns of the row and all other rows are unchanged.
\<close>

theorem update_state_writes_fields:
  "\<exists>rows'.
     update_state environ None now i st out err ra w =
       (Inr (), w\<lparr>files := (files w)(DB_PATH environ := rows')\<rparr>) \<and>
     length rows' = length (files w (DB_PATH environ)) \<and>
     (\<forall>k < length rows'.
        (job_id (files w (DB_PATH environ) ! k) \<noteq> i \<longrightarrow> rows' ! k = files w (DB_PATH environ) ! k) \<and>
        (job_id (files w (DB_PATH environ) ! k) = i \<longrightarrow>
           state (rows' ! k) = st \<and> updated_at (rows' ! k) = now \<and> run_at (rows' ! k) = ra \<and>
           (out = None \<longrightarrow> stdout (rows' ! k) = stdout (files w (DB_PATH environ) ! k)) \<and>
           (out \<noteq> None \<longrightarrow> stdout (rows' ! k) = out) \<and>
           (err = None \<longrightarrow> stderr (rows' ! k) = stderr (files w (DB_PATH environ) ! k)) \<and>
           (err \<noteq> None \<longrightarrow> stderr (rows' ! k) = err) \<and>
           job_id (rows' ! k) = i \<and>
           command (rows' ! k) = command (files w (DB_PATH environ) ! k) \<and>
           attempts (rows' ! k) = attempts (files w (DB_PATH environ) ! k) \<and>
           max_retries (rows' ! k) = max_retries (files w (DB_PATH environ) ! k) \<and>
           created_at (rows' ! k) = created_at (files w (DB_PATH environ) ! k) \<and>
           priority (rows' ! k) = priority (files w (DB_PATH environ) ! k)))"
proof -
  define rows where "rows = files w (DB_PATH environ)"
  define rows' where
    "rows' = map (\<lambda>j. if job_id j = i then update_row st now out err ra j else j) rows"
  have u: "update_state environ None now i st out err ra w =
       (Inr (), w\<lparr>files := (files w)(DB_PATH environ := rows')\<rparr>)"
    by (simp add: update_state_def with_connection_no_fault update_state_sql_def rows'_def rows_def)
  have l: "length rows' = length rows" by (simp add: rows'_def)
  have p: "\<forall>k < length rows'.
        (job_id (rows ! k) \<noteq> i \<longrightarrow> rows' ! k = rows ! k) \<and>
        (job_id (rows ! k) = i \<longrightarrow>
           state (rows' ! k) = st \<and> updated_at (rows' ! k) = now \<and> run_at (rows' ! k) = ra \<and>
           (out = None \<longrightarrow> stdout (rows' ! k) = stdout (rows ! k)) \<and>
           (out \<noteq> None \<longrightarrow> stdout (rows' ! k) = out) \<and>
           (err = None \<longrightarrow> stderr (rows' ! k) = stderr (rows ! k)) \<and>
           (err \<noteq> None \<longrightarrow> stderr (rows' ! k) = err) \<and>
           job_id (rows' ! k) = i \<and>
           command (rows' ! k) = command (rows ! k) \<and>
           attempts (rows' ! k) = attempts (rows ! k) \<and>
           max_retries (rows' ! k) = max_retries (rows ! k) \<and>
           created_at (rows' ! k) = created_at (rows ! k) \<and>
           priority (rows' ! k) = priority (rows ! k))"
  proof (intro allI impI)
    fix k assume "k < length rows'"
    then have k: "k < length rows" using l by simp
    have n: "rows' ! k = (if job_id (rows ! k) = i then update_row st now out err ra (rows ! k)
                          else rows ! k)"
      using k by (simp add: rows'_def)
    show "(job_id (rows ! k) \<noteq> i \<longrightarrow> rows' ! k = rows ! k) \<and>
        (job_id (rows ! k) = i \<longrightarrow>
           state (rows' ! k) = st \<and> updated_at (rows' ! k) = now \<and> run_at (rows' ! k) = ra \<and>
           (out = None \<longrightarrow> stdout (rows' ! k) = stdout (rows ! k)) \<and>
           (out \<noteq> None \<longrightarrow> stdout (rows' ! k) = out) \<and>
           (err = None \<longrightarrow> stderr (rows' ! k) = stderr (rows ! k)) \<and>
           (err \<noteq> None \<longrightarrow> stderr (rows' ! k) = err) \<and>
           job_id (rows' ! k) = i \<and>
           command (rows' ! k) = command (rows ! k) \<and>
           attempts (rows' ! k) = attempts (rows ! k) \<and>
           max_retries (rows' ! k) = max_retries (rows ! k) \<and>
           created_at (rows' ! k) = created_at (rows ! k) \<and>
           priority (rows' ! k) = priority (rows ! k))"
      unfolding n by (cases out; cases err) (simp_all add: update_row_def)
  qed
  show ?thesis
    unfolding rows_def[symmetric]
    by (rule exI[of _ rows']) (intro conjI u l p)
qed

text \<open>
  Claim C6, an instance: a report on job \<open>d\<close> that gives \<^verbatim>\<open>stderr\<close> and no \<^verbatim>\<open>stdout\<close> keeps the
  stored \<^verbatim>\<open>stdout\<close>.
\<close>

theorem update_state_writes_fields_witness:
  "update_state Map.empty None 1500 ''d'' Completed None (Some ''late'') None queue_world =
     (Inr (), queue_world\<lparr>files := (files queue_world)(''queue.db'' :=
        [row_a, row_b, row_c,
         row_d\<lparr>state := Completed, updated_at := 1500, stderr := Some ''late''\<rparr>])\<rparr>) \<and>
   stdout (row_d\<lparr>state := Completed, updated_at := 1500, stderr := Some ''late''\<rparr>) = Some ''out''"
  using update_state_writes_fields[of Map.empty 1500 "''d''" Completed None "Some ''late''" None
      queue_world]
  by (simp add: update_state_def with_connection_no_fault update_state_sql_def DB_PATH_empty
      queue_world_def update_row_def row_a_def row_b_def row_c_def row_d_def)

text \<open>
  Claim C3. A call of \<^verbatim>\<open>requeue\<close> that meets no storage fault returns a boolean and raises
  nothing; it returns \<^verbatim>\<open>True\<close> exactly when a row with the given id and state dead exists; such
  a row gets state pending, \<^verbatim>\<open>attempts\<close> 0, \<^verbatim>\<open>run_at\<close>, \<^verbatim>\<open>stdout\<close> and \<^verbatim>\<open>stderr\<close> null and a
  fresh \<^verbatim>\<open>updated_at\<close>; every other row is unchanged, and when the result is \<^verbatim>\<open>False\<close> the whole
  state is.
\<close>

theorem requeue_only_dead:
  "\<exists>b rows'.
     requeue environ None now i w = (Inr b, w\<lparr>files := (files w)(DB_PATH environ := rows')\<rparr>) \<and>
     (b \<longleftrightarrow> (\<exists>j\<in>set (files w (DB_PATH environ)). job_id j = i \<and> state j = Dead)) \<and>
     length rows' = length (files w (DB_PATH environ)) \<and>
     (\<forall>k < length rows'.
        (job_id (files w (DB_PATH environ) ! k) = i \<and> state (files w (DB_PATH environ) ! k) = Dead \<longrightarrow>
           rows' ! k = (files w (DB_PATH environ) ! k)
             \<lparr>state := Pending, attempts := 0, updated_at := now,
              run_at := None, stdout := None, stderr := None\<rparr>) \<and>
        (\<not> (job_id (files w (DB_PATH environ) ! k) = i \<and> state (files w (DB_PATH environ) ! k) = Dead) \<longrightarrow>
           rows' ! k = files w (DB_PATH environ) ! k)) \<and>
     (\<not> b \<longrightarrow> requeue environ None now i w = (Inr False, w))"
proof -
  define rows where "rows = files w (DB_PATH environ)"
  define hit where "hit = (\<lambda>j::'a job. job_id j = i \<and> state j = Dead)"
  define rows' where "rows' = map (\<lambda>j. if hit j then requeue_row now j else j) rows"
  define b where "b = (0 < length (filter hit rows))"
  have q: "requeue environ None now i w =
      (Inr b, w\<lparr>files := (files w)(DB_PATH environ := rows')\<rparr>)"
    by (simp add: requeue_def with_connection_no_fault requeue_sql_def Let_def rows'_def rows_def
        hit_def b_def)
  have bi: "b \<longleftrightarrow> (\<exists>j\<in>set rows. job_id j = i \<and> state j = Dead)"
    by (simp add: b_def hit_def filter_empty_conv)
  have l: "length rows' = length rows" by (simp add: rows'_def)
  have p: "\<forall>k < length rows'.
        (job_id (rows ! k) = i \<and> state (rows ! k) = Dead \<longrightarrow>
           rows' ! k = (rows ! k)\<lparr>state := Pending, attempts := 0, updated_at := now,
              run_at := None, stdout := None, stderr := None\<rparr>) \<and>
        (\<not> (job_id (rows ! k) = i \<and> state (rows ! k) = Dead) \<longrightarrow> rows' ! k = rows ! k)"
    using l by (simp add: rows'_def hit_def requeue_row_def)
  have n: "\<not> b \<longrightarrow> requeue environ None now i w = (Inr False, w)"
  proof
    assume nb: "\<not> b"
    then have "\<forall>j\<in>set rows. \<not> hit j" by (simp add: b_def filter_empty_conv)
    then have "rows' = rows" unfolding rows'_def by (simp add: map_idI)
    then show "requeue environ None now i w = (Inr False, w)"
      using q nb by (simp add: rows_def)
  qed
  show ?thesis
    unfolding rows_def[symmetric]
    by (rule exI[of _ b], rule exI[of _ rows']) (intro conjI q bi l p n)
qed

text \<open>
  Claim C3, instances: the dead job \<open>d\<close> is requeued; the pending job \<open>a\<close> and the unknown
  id \<open>z\<close> give \<^verbatim>\<open>False\<close> and change nothing.
\<close>

theorem requeue_only_dead_witness:
  "requeue Map.empty None 1500 ''d'' queue_world =
     (Inr True, queue_world\<lparr>files := (files queue_world)(''queue.db'' :=
        [row_a, row_b, row_c,
         row_d\<lparr>state := Pending, attempts := 0, updated_at := 1500,
               run_at := None, stdout := None, stderr := None\<rparr>])\<rparr>) \<and>
   requeue Map.empty None 1500 ''a'' queue_world = (Inr False, queue_world) \<and>
   requeue Map.empty None 1500 ''z'' queue_world = (Inr False, queue_world)"
proof -
  have rows: "files queue_world ''queue.db'' = [row_a, row_b, row_c, row_d]"
    by (simp add: queue_world_def)
  have ids: "job_id row_a = ''a''" "job_id row_b = ''b''" "job_id row_c = ''c''"
    "job_id row_d = ''d''" "state row_a = Pending" "state row_d = Dead"
    by (simp_all add: row_a_def row_b_def row_c_def row_d_def)
  have d: "requeue Map.empty None 1500 ''d'' queue_world =
     (Inr True, queue_world\<lparr>files := (files queue_world)(''queue.db'' :=
        [row_a, row_b, row_c,
         row_d\<lparr>state := Pending, attempts := 0, updated_at := 1500,
               run_at := None, stdout := None, stderr := None\<rparr>])\<rparr>)"
    by (simp add: requeue_def with_connection_no_fault requeue_sql_def DB_PATH_empty rows ids
        requeue_row_def)
  have na: "\<not> (\<exists>j\<in>set (files queue_world (DB_PATH Map.empty)). job_id j = ''a'' \<and> state j = Dead)"
    by (simp add: DB_PATH_empty rows ids)
  have nz: "\<not> (\<exists>j\<in>set (files queue_world (DB_PATH Map.empty)). job_id j = ''z'' \<and> state j = Dead)"
    by (simp add: DB_PATH_empty rows ids)
  have a: "requeue Map.empty None 1500 ''a'' queue_world = (Inr False, queue_world)"
    using requeue_only_dead[of Map.empty 1500 "''a''" queue_world] na by blast
  have z: "requeue Map.empty None 1500 ''z'' queue_world = (Inr False, queue_world)"
    using requeue_only_dead[of Map.empty 1500 "''z''" queue_world] nz by blast
  from d a z show ?thesis by (intro conjI)
qed

section \<open>Properties of \<^verbatim>\<open>core.py\<close> and \<^verbatim>\<open>worker.py\<close>\<close>

lemma update_state_no_fault:
  "update_state environ None now i st out err ra w =
     (Inr (), w\<lparr>files := (files w)(DB_PATH environ :=
        map (\<lambda>j. if job_id j = i then update_row st now out err ra j else j)
          (files w (DB_PATH environ)))\<rparr>)"
  by (simp add: update_state_def with_connection_no_fault update_state_sql_def)


lemma calculate_backoff_value:
  assumes "float_pow rt (backoff_base cfg) (attempts job) = Inr p"
    and "timedelta_seconds rt (float_mul rt p (uniform env)) = Inr td"
    and "datetime_add (utc_now env) td = Inr t"
  shows "calculate_backoff rt env job cfg = Inr (float_mul rt p (uniform env), strftime rt t)"
  using assms by (simp add: calculate_backoff_def Let_def)

lemma fail_job_retry:
  assumes "attempts job < max_retries job" and "storage env = None"
    and "calculate_backoff rt env job cfg = Inr (d, next_run_at)"
  shows "fail_job environ rt env job err cfg w =
     (Inr (), (print (MsgRetry (job_id job) d) w)
        \<lparr>files := (files w)(DB_PATH environ :=
           map (\<lambda>j. if job_id j = job_id job
                    then j\<lparr>state := Pending, updated_at := iso_now env, stderr := Some err,
                           run_at := Some next_run_at\<rparr>
                    else j)
             (files w (DB_PATH environ)))\<rparr>)"
  using assms by (simp add: fail_job_def update_state_no_fault update_row_def cong: if_cong)

lemma fail_job_backoff_raises:
  assumes "attempts job < max_retries job" and "calculate_backoff rt env job cfg = Inl e"
  shows "fail_job environ rt env job err cfg w = (Inl e, w)"
  using assms by (simp add: fail_job_def)

lemma round_half_even_0: "round_half_even 0 = 0"
  by (simp add: round_half_even_def)

text \<open>
  Claim C2 at a failing input. The worker runs with a backoff base of 0
  (\<^verbatim>\<open>WorkerConfig(backoff_base=0)\<close>), and job \<open>b\<close>, claimed with \<^verbatim>\<open>attempts\<close> 2 of 3, fails
  at the instant 1000 s. \<^verbatim>\<open>fail_job\<close> takes the retry branch: the job goes back to pending
  and \<^verbatim>\<open>stderr\<close> is recorded, as the claim says; but the delay is \<open>0 ^ 2\<close> times the jitter,
  that is 0, and \<^verbatim>\<open>run_at\<close> is the timestamp of the failure itself, not a later one.
\<close>

theorem fail_job_zero_base_run_at:
  "fail_job Map.empty exact_runtime quiet_env claimed_b ''boom'' \<lparr>backoff_base = 0\<rparr>
     processing_world =
     (Inr (),
      \<lparr>files = (files processing_world)(''queue.db'' :=
          [row_a,
           claimed_b\<lparr>state := Pending, updated_at := 1000, stderr := Some ''boom'',
                     run_at := Some 1000\<rparr>,
           row_c, row_d]),
       trace = [Printed (MsgRetry ''b'' (Finite 0))]\<rparr>) \<and>
   strftime exact_runtime (utc_now quiet_env) = 1000 \<and>
   \<not> strftime exact_runtime (utc_now quiet_env) < 1000"
proof -
  have a: "attempts claimed_b < max_retries claimed_b"
    by (simp add: claimed_b_def row_b_def)
  have s: "storage quiet_env = None" by (simp add: quiet_env_def)
  have c: "calculate_backoff exact_runtime quiet_env claimed_b \<lparr>backoff_base = 0\<rparr> =
      Inr (Finite 0, 1000)"
    by (simp add: calculate_backoff_def exact_runtime_def quiet_env_def claimed_b_def row_b_def
        round_half_even_0 datetime_add_def Let_def)
  have ids: "job_id row_a = ''a''" "job_id claimed_b = ''b''" "job_id row_c = ''c''"
    "job_id row_d = ''d''"
    by (simp_all add: row_a_def row_b_def row_c_def row_d_def claimed_b_def)
  have rows: "files processing_world ''queue.db'' = [row_a, claimed_b, row_c, row_d]"
    by (simp add: processing_world_def)
  have t: "trace processing_world = []" by (simp add: processing_world_def)
  have f: "fail_job Map.empty exact_runtime quiet_env claimed_b ''boom'' \<lparr>backoff_base = 0\<rparr>
     processing_world =
     (Inr (),
      \<lparr>files = (files processing_world)(''queue.db'' :=
          [row_a,
           claimed_b\<lparr>state := Pending, updated_at := 1000, stderr := Some ''boom'',
                     run_at := Some 1000\<rparr>,
           row_c, row_d]),
       trace = [Printed (MsgRetry ''b'' (Finite 0))]\<rparr>)"
    unfolding fail_job_retry[OF a s c]
    by (simp add: DB_PATH_empty rows ids print_def t quiet_env_def)
  show ?thesis using f by (simp add: exact_runtime_def quiet_env_def)
qed





section \<open>The states written, and the environment\<close>

lemma no_failed_print: "no_failed (print m w) = no_failed w"
  by (simp add: no_failed_def)

lemma no_failed_write:
  assumes "no_failed w" and "\<forall>j\<in>set rows. state j \<noteq> Failed"
  shows "no_failed (w\<lparr>files := (files w)(p := rows)\<rparr>)"
  using assms by (simp add: no_failed_def)

lemma no_failed_rows: "no_failed w \<Longrightarrow> \<forall>j\<in>set (files w p). state j \<noteq> Failed"
  by (simp add: no_failed_def)

lemma with_connection_world:
  "snd (with_connection environ f stmt w) = w \<or>
   (\<exists>r rows'. stmt (files w (DB_PATH environ)) = Inr (r, rows') \<and>
      snd (with_connection environ f stmt w) = w\<lparr>files := (files w)(DB_PATH environ := rows')\<rparr>)"
proof (cases f)
  case None
  show ?thesis
  proof (cases "stmt (files w (DB_PATH environ))")
    case (Inl e)
    then show ?thesis using None by (simp add: with_connection_no_fault)
  next
    case (Inr x)
    then obtain r rows' where "stmt (files w (DB_PATH environ)) = Inr (r, rows')"
      by (cases x) simp
    then show ?thesis using None by (simp add: with_connection_no_fault)
  qed
next
  case (Some x)
  then obtain s e where "f = Some (s, e)" by (cases x) simp
  then show ?thesis using with_connection_fault[of environ s e stmt w] by auto
qed

lemma with_connection_no_failed:
  assumes "no_failed w"
    and "\<And>rows r rows'. stmt rows = Inr (r, rows') \<Longrightarrow> \<forall>j\<in>set rows. state j \<noteq> Failed \<Longrightarrow>
           \<forall>j\<in>set rows'. state j \<noteq> Failed"
  shows "no_failed (snd (with_connection environ f stmt w))"
proof -
  from with_connection_world[of environ f stmt w]
  consider "snd (with_connection environ f stmt w) = w"
    | r rows' where "stmt (files w (DB_PATH environ)) = Inr (r, rows')"
        "snd (with_connection environ f stmt w) = w\<lparr>files := (files w)(DB_PATH environ := rows')\<rparr>"
    by blast
  then show ?thesis
  proof cases
    case 1
    then show ?thesis using assms(1) by simp
  next
    case 2
    have "\<forall>j\<in>set rows'. state j \<noteq> Failed"
      using assms(2)[OF 2(1)] no_failed_rows[OF assms(1)] by simp
    then show ?thesis unfolding 2(2) using assms(1) by (rule no_failed_write[rotated])
  qed
qed

lemma update_state_no_failed:
  assumes "no_failed w" and "st \<noteq> Failed"
  shows "no_failed (snd (update_state environ f now i st out err ra w))"
  unfolding update_state_def
proof (rule with_connection_no_failed[OF assms(1)])
  fix rows r rows'
  assume "update_state_sql now i st out err ra rows = Inr (r, rows')"
    and n: "\<forall>j\<in>set rows. state j \<noteq> Failed"
  then have "rows' = map (\<lambda>j. if job_id j = i then update_row st now out err ra j else j) rows"
    by (simp add: update_state_sql_def)
  then show "\<forall>j\<in>set rows'. state j \<noteq> Failed"
    using n assms(2) by (auto simp: update_row_def)
qed

lemma add_no_failed:
  assumes "no_failed w"
  shows "no_failed (snd (add environ f new_id now cmd retries prio ra w))"
  unfolding add_def
proof (rule with_connection_no_failed[OF assms])
  fix rows r rows'
  assume "add_sql new_id now cmd retries prio ra rows = Inr (r, rows')"
    and n: "\<forall>j\<in>set rows. state j \<noteq> Failed"
  then show "\<forall>j\<in>set rows'. state j \<noteq> Failed"
    by (auto simp: add_sql_def split: if_splits)
qed

lemma requeue_no_failed:
  assumes "no_failed w"
  shows "no_failed (snd (requeue environ f now i w))"
  unfolding requeue_def
proof (rule with_connection_no_failed[OF assms])
  fix rows r rows'
  assume "requeue_sql now i rows = Inr (r, rows')"
    and n: "\<forall>j\<in>set rows. state j \<noteq> Failed"
  then show "\<forall>j\<in>set rows'. state j \<noteq> Failed"
    by (auto simp: requeue_sql_def Let_def requeue_row_def)
qed

lemma complete_job_no_failed:
  "no_failed w \<Longrightarrow> no_failed (snd (complete_job environ env job out err w))"
  unfolding complete_job_def
  by (rule update_state_no_failed) (simp_all add: no_failed_print)

lemma fail_job_no_failed:
  assumes "no_failed w"
  shows "no_failed (snd (fail_job environ rt env job err cfg w))"
proof (cases "max_retries job \<le> attempts job")
  case True
  then show ?thesis unfolding fail_job_def using assms
    by (simp add: update_state_no_failed no_failed_print)
next
  case False
  show ?thesis
  proof (cases "calculate_backoff rt env job cfg")
    case (Inl e)
    then show ?thesis using False assms by (simp add: fail_job_def)
  next
    case (Inr x)
    then obtain d n where "calculate_backoff rt env job cfg = Inr (d, n)" by (cases x) simp
    then show ?thesis using False assms
      by (simp add: fail_job_def update_state_no_failed no_failed_print)
  qed
qed

lemma dequeue_sql_no_failed:
  assumes "\<forall>j\<in>set rows. state j \<noteq> Failed"
  shows "\<forall>j\<in>set (snd (dequeue_sql now tie rows)). state j \<noteq> Failed"
  using assms by (auto simp: dequeue_sql_def Let_def claim_row_def split: option.splits)

lemma dequeue_other_error:
  "exn_class_of e \<noteq> OperationalError \<Longrightarrow> dequeue environ (Some (s, e)) now tie w = (Inl e, w)"
  by (cases s)
     (simp_all add: dequeue_def get_connection_def raises_def dequeue_except_def Let_def
        rollback_def begin_transaction_def write_table_def split_def)

lemma dequeue_no_failed:
  assumes "no_failed w"
  shows "no_failed (snd (dequeue environ f now tie w))"
proof (cases f)
  case None
  have "\<forall>j\<in>set (snd (dequeue_sql now tie (files w (DB_PATH environ)))). state j \<noteq> Failed"
    using no_failed_rows[OF assms] by (rule dequeue_sql_no_failed)
  then show ?thesis using None assms by (simp add: dequeue_no_fault no_failed_write)
next
  case (Some x)
  then obtain s e where f: "f = Some (s, e)" by (cases x) simp
  show ?thesis
  proof (cases "exn_class_of e = OperationalError")
    case True
    then obtain m where "e = Exn OperationalError m" by (cases e) simp
    then show ?thesis using f assms by (simp add: dequeue_operational_error no_failed_print)
  next
    case False
    then show ?thesis using f assms by (simp add: dequeue_other_error)
  qed
qed

text \<open>
  Claim C10. \<^verbatim>\<open>add\<close>, \<^verbatim>\<open>dequeue\<close>, \<^verbatim>\<open>complete_job\<close>, \<^verbatim>\<open>fail_job\<close> and \<^verbatim>\<open>requeue\<close> write only the
  states pending, processing, completed and dead (the lemmas above, one for each operation,
  for every argument and every fault). So in a store reached from empty tables by these
  operations alone, no job has the state failed, although the schema admits it.
\<close>

theorem reachable_never_failed:
  assumes "reachable rt w"
  shows "\<forall>p. \<forall>j\<in>set (files w p).
           state j = Pending \<or> state j = Processing \<or> state j = Completed \<or> state j = Dead"
proof -
  have "no_failed w" using assms
  proof (induction rule: reachable.induct)
    case (initial w)
    then show ?case by (simp add: no_failed_def)
  next
    case (by_add w environ f new_id now cmd retries prio ra)
    then show ?case by (simp add: add_no_failed)
  next
    case (by_dequeue w environ f now tie)
    then show ?case by (simp add: dequeue_no_failed)
  next
    case (by_complete_job w environ env job out err)
    then show ?case by (simp add: complete_job_no_failed)
  next
    case (by_fail_job w environ env job err cfg)
    then show ?case by (simp add: fail_job_no_failed)
  next
    case (by_requeue w environ f now i)
    then show ?case by (simp add: requeue_no_failed)
  qed
  then have n: "\<forall>p. \<forall>j\<in>set (files w p). state j \<noteq> Failed" by (simp add: no_failed_def)
  show ?thesis
  proof (intro allI ballI)
    fix p j assume "j \<in> set (files w p)"
    then have "state j \<noteq> Failed" using n by simp
    then show "state j = Pending \<or> state j = Processing \<or> state j = Completed \<or> state j = Dead"
      by (cases "state j") simp_all
  qed
qed

text \<open>
  Claim C10, an instance: the store after an \<^verbatim>\<open>add\<close> and a \<^verbatim>\<open>dequeue\<close> is reachable, holds
  one job, and the state of that job is one of the four.
\<close>

theorem reachable_never_failed_witness:
  "reachable exact_runtime
     (snd (dequeue Map.empty None 200 0
        (snd (add Map.empty None ''a'' 100 ''true'' 3 0 None empty_world)))) \<and>
   files (snd (dequeue Map.empty None 200 0
        (snd (add Map.empty None ''a'' 100 ''true'' 3 0 None empty_world)))) ''queue.db'' =
     [\<lparr>job_id = ''a'', command = ''true'', state = Processing, attempts = 1, max_retries = 3,
       created_at = 100, updated_at = 200, priority = 0, run_at = None, stdout = None,
       stderr = None\<rparr>] \<and>
   state (hd (files (snd (dequeue Map.empty None 200 0
        (snd (add Map.empty None ''a'' 100 ''true'' 3 0 None empty_world)))) ''queue.db''))
     \<in> {Pending, Processing, Completed, Dead}"
proof -
  define w1 where "w1 = snd (add Map.empty None ''a'' (100::int) ''true'' 3 0 None empty_world)"
  define w2 where "w2 = snd (dequeue Map.empty None (200::int) 0 w1)"
  have r0: "reachable exact_runtime empty_world"
    by (rule reachable.initial) (simp add: empty_world_def)
  have r1: "reachable exact_runtime w1" unfolding w1_def using r0 by (rule reachable.by_add)
  have r2: "reachable exact_runtime w2" unfolding w2_def using r1 by (rule reachable.by_dequeue)
  have f1: "files w1 ''queue.db'' =
     [\<lparr>job_id = ''a'', command = ''true'', state = Pending, attempts = 0, max_retries = 3,
       created_at = 100, updated_at = 100, priority = 0, run_at = None, stdout = None,
       stderr = None\<rparr>]"
    by (simp add: w1_def add_def with_connection_no_fault add_sql_def in_int64_def DB_PATH_empty
        empty_world_def)
  have f2: "files w2 ''queue.db'' =
     [\<lparr>job_id = ''a'', command = ''true'', state = Processing, attempts = 1, max_retries = 3,
       created_at = 100, updated_at = 200, priority = 0, run_at = None, stdout = None,
       stderr = None\<rparr>]"
    by (simp add: w2_def dequeue_no_fault DB_PATH_empty f1 dequeue_sql_def select_id_def
        first_rows_def eligible_def before_def claim_row_def sql_add_one_def)
  have m: "hd (files w2 ''queue.db'') \<in> set (files w2 ''queue.db'')"
    unfolding f2 by simp
  have a: "\<forall>p. \<forall>j\<in>set (files w2 p).
      state j = Pending \<or> state j = Processing \<or> state j = Completed \<or> state j = Dead"
    using r2 by (rule reachable_never_failed)
  from a have "\<forall>j\<in>set (files w2 ''queue.db'').
      state j = Pending \<or> state j = Processing \<or> state j = Completed \<or> state j = Dead"
    by (rule spec)
  from this m
  have "state (hd (files w2 ''queue.db'')) = Pending \<or>
        state (hd (files w2 ''queue.db'')) = Processing \<or>
        state (hd (files w2 ''queue.db'')) = Completed \<or>
        state (hd (files w2 ''queue.db'')) = Dead"
    by (rule bspec)
  then have s: "state (hd (files w2 ''queue.db'')) \<in> {Pending, Processing, Completed, Dead}"
    by (simp only: insert_iff empty_iff simp_thms)
  from r2 f2 s show ?thesis unfolding w2_def w1_def by (intro conjI)
qed














end
